theory Spec2Isabelle
  imports Complex_Main "HOL-Library.Sublist" "HOL-Library.Multiset"
begin

chapter \<open>Job aggregation pipeline: store, upsert, search and expiry\<close>

text \<open>
  A shallow embedding of \<^verbatim>\<open>backend/src/services/jobAggregator.ts\<close>,
  \<^verbatim>\<open>backend/src/services/jobApis/linkedinAPI.ts\<close>, the mock data of the Handshake
  adapter and the \<^verbatim>\<open>Job\<close> schema.

  Conventions.
  \<^item> Strings are byte strings. \<^verbatim>\<open>toUpperCase\<close> and \<^verbatim>\<open>toLowerCase\<close> act on the ASCII
    letters and leave every other byte alone.
  \<^item> A \<^verbatim>\<open>Date\<close> is its time value, an integer number of milliseconds. A function that
    calls \<^verbatim>\<open>new Date()\<close> takes the current time \<open>now\<close> as an argument; one run of
    \<^verbatim>\<open>aggregateJobs\<close> reads one time.
  \<^item> The collection of \<^verbatim>\<open>Job\<close> documents is a list in insertion order; every
    operation of the ORM that the code calls is a function on that list.
  \<^item> An optional field is an \<open>option\<close>. The optional fields that are only copied
    through (\<^verbatim>\<open>salaryMin\<close>, \<^verbatim>\<open>salaryMax\<close>, \<^verbatim>\<open>universityName\<close>, \<^verbatim>\<open>companyLogo\<close>)
    and the timestamps the ORM maintains are not part of the records, and the setters of
    the schema that trim \<^verbatim>\<open>title\<close>, \<^verbatim>\<open>company\<close> and \<^verbatim>\<open>location\<close> are left out.
  \<^item> What the outside world answers (a provider's reply, the verdict of the schema
    validators, the text index, the regular expression engine) is an argument of the
    function that asks for it.
\<close>

section \<open>Strings\<close>

definition toUpperChar :: "char \<Rightarrow> char" where
  "toUpperChar c =
     (let n = (of_char c :: nat) in if 97 \<le> n \<and> n \<le> 122 then char_of (n - 32) else c)"

definition toUpperCase :: "string \<Rightarrow> string" where
  "toUpperCase s = map toUpperChar s"

definition toLowerChar :: "char \<Rightarrow> char" where
  "toLowerChar c =
     (let n = (of_char c :: nat) in if 65 \<le> n \<and> n \<le> 90 then char_of (n + 32) else c)"

definition toLowerCase :: "string \<Rightarrow> string" where
  "toLowerCase s = map toLowerChar s"

text \<open>\<^verbatim>\<open>s.includes(t)\<close>: \<open>t\<close> occurs in \<open>s\<close> as a contiguous run of characters.\<close>

fun str_includes :: "string \<Rightarrow> string \<Rightarrow> bool" where
  "str_includes [] t = (t = [])"
| "str_includes (c # cs) t = (prefix t (c # cs) \<or> str_includes cs t)"

text \<open>\<^verbatim>\<open>a || d\<close> on strings: the empty string and \<^verbatim>\<open>undefined\<close> are falsy.\<close>

definition str_or :: "string \<Rightarrow> string \<Rightarrow> string" where
  "str_or a d = (if a = [] then d else a)"

definition opt_or :: "string option \<Rightarrow> string \<Rightarrow> string" where
  "opt_or a d = (case a of None \<Rightarrow> d | Some s \<Rightarrow> str_or s d)"


section \<open>The Job schema\<close>

record visaSponsorship =
  h1b :: bool
  opt :: bool
  stemOpt :: bool

text \<open>A stored document (\<^verbatim>\<open>IJob\<close>); \<open>job_id\<close> is its \<^verbatim>\<open>_id\<close>.\<close>

record job =
  job_id :: nat
  title :: string
  company :: string
  location :: string
  description :: string
  requirements :: "string list"
  responsibilities :: "string list"
  employmentType :: string
  experienceLevel :: string
  remote :: bool
  salaryCurrency :: string
  visaSponsorship :: visaSponsorship
  source :: string
  sourceJobId :: string
  sourceUrl :: string
  isUniversityJob :: bool
  isCampusExclusive :: bool
  postedDate :: int
  applicationUrl :: string
  skillsRequired :: "string list"
  industryTags :: "string list"
  views :: nat
  applications :: nat
  isActive :: bool
  isFeatured :: bool
  lastRefreshed :: int

definition employmentType_enum :: "string list" where
  "employmentType_enum = [''FULL_TIME'', ''PART_TIME'', ''CONTRACT'', ''INTERNSHIP'', ''TEMPORARY'']"

definition no_visa :: visaSponsorship where
  "no_visa = \<lparr>h1b = False, opt = False, stemOpt = False\<rparr>"

text \<open>
  The document a \<^verbatim>\<open>Job.create\<close> starts from: the schema's defaults, the required
  fields not yet set.
\<close>

definition schemaDefaults :: "int \<Rightarrow> nat \<Rightarrow> job" where
  "schemaDefaults now i =
     \<lparr>job_id = i, title = [], company = [], location = [], description = [],
      requirements = [], responsibilities = [], employmentType = [],
      experienceLevel = ''MID'', remote = False, salaryCurrency = ''USD'',
      visaSponsorship = no_visa, source = [], sourceJobId = [], sourceUrl = [],
      isUniversityJob = False, isCampusExclusive = False, postedDate = 0,
      applicationUrl = [], skillsRequired = [], industryTags = [], views = 0,
      applications = 0, isActive = True, isFeatured = False, lastRefreshed = now\<rparr>"

section \<open>The collection and the ORM calls\<close>

datatype error = ValidationError | DuplicateKey | QueryError | FetchError string

text \<open>The compound unique index \<^verbatim>\<open>{source: 1, sourceJobId: 1}\<close>.\<close>

definition job_key :: "job \<Rightarrow> string \<times> string" where
  "job_key j = (source j, sourceJobId j)"

text \<open>\<^verbatim>\<open>Job.findOne({source: s, sourceJobId: i})\<close>: the first document that matches.\<close>

definition Job_findOne :: "string \<Rightarrow> string \<Rightarrow> job list \<Rightarrow> job option" where
  "Job_findOne s i db = find (\<lambda>j. source j = s \<and> sourceJobId j = i) db"

text \<open>
  \<^verbatim>\<open>Job.findByIdAndUpdate(id, doc)\<close>: the document with that \<^verbatim>\<open>_id\<close> gets the fields
  of \<open>doc\<close>, which is the function that sets them; no validator runs.
\<close>

fun Job_findByIdAndUpdate :: "nat \<Rightarrow> (job \<Rightarrow> job) \<Rightarrow> job list \<Rightarrow> job list" where
  "Job_findByIdAndUpdate i doc [] = []"
| "Job_findByIdAndUpdate i doc (j # js) =
     (if job_id j = i then doc j # js else j # Job_findByIdAndUpdate i doc js)"

definition freshId :: "job list \<Rightarrow> nat" where
  "freshId db = Suc (fold max (map job_id db) 0)"

text \<open>
  \<^verbatim>\<open>Job.create(doc)\<close>: the fields of \<open>doc\<close> over the schema defaults, under a fresh
  \<^verbatim>\<open>_id\<close>. The schema validators (\<open>validate\<close>) or the unique index can reject it.
\<close>

definition Job_create ::
  "(job \<Rightarrow> bool) \<Rightarrow> int \<Rightarrow> (job \<Rightarrow> job) \<Rightarrow> job list \<Rightarrow> error + job list" where
  "Job_create validate now doc db =
     (let d = doc (schemaDefaults now (freshId db)) in
      if \<not> validate d then Inl ValidationError
      else if list_ex (\<lambda>j. job_key j = job_key d) db then Inl DuplicateKey
      else Inr (db @ [d]))"


text \<open>
  \<^verbatim>\<open>.sort({postedDate: -1})\<close>: newest first; documents of equal date stay in
  collection order.
\<close>

definition sort_postedDate_desc :: "job list \<Rightarrow> job list" where
  "sort_postedDate_desc js = sort_key (\<lambda>j. - postedDate j) js"

definition Job_countDocuments :: "(job \<Rightarrow> bool) \<Rightarrow> job list \<Rightarrow> nat" where
  "Job_countDocuments q db = length (filter q db)"

section \<open>jobAggregator.ts\<close>

subsection \<open>Fetched records\<close>

text \<open>
  \<^verbatim>\<open>JobApiResponse\<close>, the record of the five generic providers, with the fields
  \<^verbatim>\<open>saveJob\<close> reads; \<open>api_salary_currency\<close> is \<^verbatim>\<open>salary?.currency\<close>.
\<close>

record jobApiResponse =
  api_id :: string
  api_title :: "string option"
  api_company :: "string option"
  api_location :: "string option"
  api_description :: "string option"
  api_employmentType :: "string option"
  api_remote :: "bool option"
  api_salary_currency :: "string option"
  api_visaSponsorship :: "visaSponsorship option"
  api_source :: string
  api_url :: "string option"
  api_postedDate :: "int option"
  api_skills :: "string list option"

text \<open>
  \<^verbatim>\<open>TransformedJob\<close> of the Handshake adapter. Its \<^verbatim>\<open>postedDate\<close> is a \<^verbatim>\<open>Date\<close>, which
  is never falsy: the default \<^verbatim>\<open>|| new Date()\<close> of the save routine cannot apply.
\<close>

record handshakeJob =
  hs_sourceJobId :: string
  hs_source :: string
  hs_title :: string
  hs_company :: string
  hs_location :: string
  hs_description :: string
  hs_salaryCurrency :: "string option"
  hs_remote :: bool
  hs_employmentType :: string
  hs_postedDate :: int
  hs_url :: string
  hs_isCampusExclusive :: "bool option"
  hs_experienceLevel :: "string option"
  hs_skills :: "string list option"

text \<open>\<^verbatim>\<open>TransformedJob\<close> of the LinkedIn adapter; the same holds of its \<^verbatim>\<open>postedDate\<close>.\<close>

record linkedInTransformed =
  li_sourceJobId :: string
  li_source :: string
  li_title :: string
  li_company :: string
  li_location :: string
  li_description :: string
  li_salaryCurrency :: "string option"
  li_remote :: bool
  li_employmentType :: string
  li_postedDate :: int
  li_applicationUrl :: string
  li_experienceLevel :: "string option"
  li_skills :: "string list option"

subsection \<open>mapEmploymentType\<close>

definition mapEmploymentType :: "string option \<Rightarrow> string" where
  "mapEmploymentType type =
     (case type of
        None \<Rightarrow> ''FULL_TIME''
      | Some t \<Rightarrow>
          if t = [] then ''FULL_TIME''
          else let typeUpper = toUpperCase t in
            if str_includes typeUpper ''FULL'' then ''FULL_TIME''
            else if str_includes typeUpper ''PART'' then ''PART_TIME''
            else if str_includes typeUpper ''CONTRACT'' then ''CONTRACT''
            else if str_includes typeUpper ''INTERN'' then ''INTERNSHIP''
            else if str_includes typeUpper ''TEMP'' then ''TEMPORARY''
            else ''FULL_TIME'')"

subsection \<open>The three save routines\<close>

text \<open>
  Each routine builds \<^verbatim>\<open>jobDoc\<close>, here the function that sets the listed fields, and
  either updates the document \<^verbatim>\<open>findOne\<close> returned or creates a new one. An error of
  the store is caught and logged: the collection is left as it was.
\<close>

definition saveJob_jobDoc :: "int \<Rightarrow> jobApiResponse \<Rightarrow> job \<Rightarrow> job" where
  "saveJob_jobDoc now jobData j =
     j\<lparr>title := opt_or (api_title jobData) ''Untitled Position'',
       company := opt_or (api_company jobData) ''Unknown Company'',
       location := opt_or (api_location jobData) ''Not Specified'',
       description := opt_or (api_description jobData) [],
       requirements := [],
       responsibilities := [],
       employmentType := mapEmploymentType (api_employmentType jobData),
       remote := (case api_remote jobData of None \<Rightarrow> False | Some b \<Rightarrow> b),
       salaryCurrency := opt_or (api_salary_currency jobData) ''USD'',
       visaSponsorship :=
         (case api_visaSponsorship jobData of None \<Rightarrow> no_visa | Some v \<Rightarrow> v),
       source := toUpperCase (api_source jobData),
       sourceJobId := api_id jobData,
       sourceUrl := opt_or (api_url jobData) [],
       isUniversityJob := False,
       postedDate := (case api_postedDate jobData of None \<Rightarrow> now | Some d \<Rightarrow> d),
       applicationUrl := opt_or (api_url jobData) [],
       skillsRequired := (case api_skills jobData of None \<Rightarrow> [] | Some ss \<Rightarrow> ss),
       industryTags := [],
       isActive := True,
       isFeatured := False,
       lastRefreshed := now\<rparr>"

text \<open>The common tail of the three routines: update the document found, else create.\<close>

definition upsert ::
  "(job \<Rightarrow> bool) \<Rightarrow> int \<Rightarrow> job option \<Rightarrow> (job \<Rightarrow> job) \<Rightarrow> job list \<Rightarrow> job list" where
  "upsert validate now existingJob jobDoc db =
     (case existingJob of
        Some e \<Rightarrow> Job_findByIdAndUpdate (job_id e) jobDoc db
      | None \<Rightarrow>
          (case Job_create validate now jobDoc db of
             Inr db' \<Rightarrow> db'
           | Inl err \<Rightarrow> db))"

definition saveJob :: "(job \<Rightarrow> bool) \<Rightarrow> int \<Rightarrow> job list \<Rightarrow> jobApiResponse \<Rightarrow> job list" where
  "saveJob validate now db jobData =
     (let existingJob = Job_findOne (toUpperCase (api_source jobData)) (api_id jobData) db;
          jobDoc = saveJob_jobDoc now jobData
      in upsert validate now existingJob jobDoc db)"

definition saveHandshakeJob_jobDoc :: "int \<Rightarrow> handshakeJob \<Rightarrow> job \<Rightarrow> job" where
  "saveHandshakeJob_jobDoc now jobData j =
     j\<lparr>title := str_or (hs_title jobData) ''Untitled Position'',
       company := str_or (hs_company jobData) ''Unknown Company'',
       location := str_or (hs_location jobData) ''Not Specified'',
       description := str_or (hs_description jobData) [],
       requirements := [],
       responsibilities := [],
       employmentType := mapEmploymentType (Some (hs_employmentType jobData)),
       experienceLevel :=
         opt_or (map_option toUpperCase (hs_experienceLevel jobData)) ''ENTRY'',
       remote := hs_remote jobData,
       salaryCurrency := opt_or (hs_salaryCurrency jobData) ''USD'',
       visaSponsorship := \<lparr>h1b = False, opt = False, stemOpt = False\<rparr>,
       source := hs_source jobData,
       sourceJobId := hs_sourceJobId jobData,
       sourceUrl := str_or (hs_url jobData) [],
       isUniversityJob := True,
       isCampusExclusive :=
         (case hs_isCampusExclusive jobData of None \<Rightarrow> False | Some b \<Rightarrow> b),
       postedDate := hs_postedDate jobData,
       applicationUrl := str_or (hs_url jobData) [],
       skillsRequired := (case hs_skills jobData of None \<Rightarrow> [] | Some ss \<Rightarrow> ss),
       industryTags := [],
       isActive := True,
       isFeatured := False,
       lastRefreshed := now\<rparr>"

definition saveHandshakeJob ::
  "(job \<Rightarrow> bool) \<Rightarrow> int \<Rightarrow> job list \<Rightarrow> handshakeJob \<Rightarrow> job list" where
  "saveHandshakeJob validate now db jobData =
     (let existingJob = Job_findOne (hs_source jobData) (hs_sourceJobId jobData) db;
          jobDoc = saveHandshakeJob_jobDoc now jobData
      in upsert validate now existingJob jobDoc db)"

definition saveLinkedInJob_jobDoc :: "int \<Rightarrow> linkedInTransformed \<Rightarrow> job \<Rightarrow> job" where
  "saveLinkedInJob_jobDoc now jobData j =
     j\<lparr>title := str_or (li_title jobData) ''Untitled Position'',
       company := str_or (li_company jobData) ''Unknown Company'',
       location := str_or (li_location jobData) ''Not Specified'',
       description := str_or (li_description jobData) [],
       requirements := [],
       responsibilities := [],
       employmentType := mapEmploymentType (Some (li_employmentType jobData)),
       experienceLevel :=
         opt_or (map_option toUpperCase (li_experienceLevel jobData)) ''ENTRY'',
       remote := li_remote jobData,
       salaryCurrency := opt_or (li_salaryCurrency jobData) ''USD'',
       visaSponsorship := \<lparr>h1b = False, opt = False, stemOpt = False\<rparr>,
       source := li_source jobData,
       sourceJobId := li_sourceJobId jobData,
       sourceUrl := str_or (li_applicationUrl jobData) [],
       isUniversityJob :=
         (li_employmentType jobData = ''INTERNSHIP'' \<or>
          li_experienceLevel jobData = Some ''ENTRY''),
       isCampusExclusive := False,
       postedDate := li_postedDate jobData,
       applicationUrl := str_or (li_applicationUrl jobData) [],
       skillsRequired := (case li_skills jobData of None \<Rightarrow> [] | Some ss \<Rightarrow> ss),
       industryTags := [],
       isActive := True,
       isFeatured := False,
       lastRefreshed := now\<rparr>"

definition saveLinkedInJob ::
  "(job \<Rightarrow> bool) \<Rightarrow> int \<Rightarrow> job list \<Rightarrow> linkedInTransformed \<Rightarrow> job list" where
  "saveLinkedInJob validate now db jobData =
     (let existingJob = Job_findOne (li_source jobData) (li_sourceJobId jobData) db;
          jobDoc = saveLinkedInJob_jobDoc now jobData
      in upsert validate now existingJob jobDoc db)"

subsection \<open>aggregateJobs\<close>

definition services :: "string list" where
  "services = [''usajobs'', ''remoteok'', ''arbeitnow'', ''jooble'', ''careerjet'']"

text \<open>
  One round of the loop over \<^verbatim>\<open>this.services\<close>. \<open>fetchJobs name\<close> is what
  \<^verbatim>\<open>service.fetchJobs(params)\<close> of that provider does: \<open>Inl\<close> when it throws, else the
  records. The \<^verbatim>\<open>catch\<close> logs the error and goes on to the next provider.
\<close>

definition aggregate_service ::
  "(job \<Rightarrow> bool) \<Rightarrow> int \<Rightarrow> (string \<Rightarrow> error + jobApiResponse list) \<Rightarrow> string \<Rightarrow>
   job list \<times> nat \<Rightarrow> job list \<times> nat" where
  "aggregate_service validate now fetchJobs name st =
     (case fetchJobs name of
        Inl err \<Rightarrow> st
      | Inr jobs \<Rightarrow>
          fold (\<lambda>jobData (db, totalSaved). (saveJob validate now db jobData, totalSaved + 1))
            jobs st)"

text \<open>
  \<open>handshakeOutcome\<close> and \<open>linkedInOutcome\<close> are the outcomes of the calls of
  \<^verbatim>\<open>fetchHandshakeJobs\<close> and \<^verbatim>\<open>fetchLinkedInMultiple\<close>, \<open>Inl\<close> when the call throws. The
  result is the collection after the run and the number returned.
\<close>

definition aggregateJobs ::
  "(job \<Rightarrow> bool) \<Rightarrow> int \<Rightarrow> (string \<Rightarrow> error + jobApiResponse list) \<Rightarrow>
   error + handshakeJob list \<Rightarrow> error + linkedInTransformed list \<Rightarrow>
   job list \<Rightarrow> job list \<times> nat" where
  "aggregateJobs validate now fetchJobs handshakeOutcome linkedInOutcome db =
     (let st1 = fold (aggregate_service validate now fetchJobs) services (db, 0);
          st2 = (case handshakeOutcome of
                   Inl err \<Rightarrow> st1
                 | Inr handshakeJobs \<Rightarrow>
                     fold (\<lambda>job (db, totalSaved).
                             (saveHandshakeJob validate now db job, totalSaved + 1))
                       handshakeJobs st1);
          st3 = (case linkedInOutcome of
                   Inl err \<Rightarrow> st2
                 | Inr linkedInJobs \<Rightarrow>
                     fold (\<lambda>job (db, totalSaved).
                             (saveLinkedInJob validate now db job, totalSaved + 1))
                       linkedInJobs st2)
      in st3)"

text \<open>The inputs of one run, and a sequence of runs from a given collection.\<close>

record run =
  run_validate :: "job \<Rightarrow> bool"
  run_now :: int
  run_fetchJobs :: "string \<Rightarrow> error + jobApiResponse list"
  run_handshakeOutcome :: "error + handshakeJob list"
  run_linkedInOutcome :: "error + linkedInTransformed list"

definition aggregate_run :: "run \<Rightarrow> job list \<Rightarrow> job list" where
  "aggregate_run r db =
     fst (aggregateJobs (run_validate r) (run_now r) (run_fetchJobs r)
            (run_handshakeOutcome r) (run_linkedInOutcome r) db)"

definition aggregate_runs :: "run list \<Rightarrow> job list \<Rightarrow> job list" where
  "aggregate_runs rs db = fold aggregate_run rs db"

subsection \<open>searchJobs\<close>

record filters =
  f_keywords :: "string option"
  f_location :: "string option"
  f_remote :: "bool option"
  f_h1b :: bool
  f_opt :: bool
  f_stemOpt :: bool
  f_employmentType :: "string option"
  f_skills :: "string list option"

text \<open>\<^verbatim>\<open>Math.ceil(total / limit)\<close> can be a number, \<^verbatim>\<open>Infinity\<close> or \<^verbatim>\<open>NaN\<close>.\<close>

datatype jsnum = Num int | Infinity | NaN

record pagination =
  p_total :: nat
  p_page :: int
  p_limit :: int
  p_pages :: jsnum

record searchResult =
  jobs :: "job list"
  pagination :: pagination

text \<open>
  The query object as the predicate the database evaluates. \<open>textSearch\<close> is the text
  index (\<^verbatim>\<open>$text\<close>); \<open>regex\<close> compiles a case-insensitive pattern and is \<open>None\<close> for a
  pattern the server rejects. The collection has no path \<^verbatim>\<open>skills\<close>: with
  \<open>strictQuery\<close> the ORM drops that condition, without it no document meets it.
\<close>

definition location_filter ::
  "(string \<Rightarrow> (string \<Rightarrow> bool) option) \<Rightarrow> filters \<Rightarrow> error + (job \<Rightarrow> bool)" where
  "location_filter regex f =
     (case f_location f of
        None \<Rightarrow> Inr (\<lambda>j. True)
      | Some l \<Rightarrow>
          if l = [] then Inr (\<lambda>j. True)
          else (case regex l of
                  None \<Rightarrow> Inl QueryError
                | Some m \<Rightarrow> Inr (\<lambda>j. m (location j))))"

definition searchJobs_query ::
  "(string \<Rightarrow> job \<Rightarrow> bool) \<Rightarrow> (string \<Rightarrow> (string \<Rightarrow> bool) option) \<Rightarrow> bool \<Rightarrow>
   filters \<Rightarrow> error + (job \<Rightarrow> bool)" where
  "searchJobs_query textSearch regex strictQuery f =
     (case location_filter regex f of
        Inl err \<Rightarrow> Inl err
      | Inr loc \<Rightarrow>
          Inr (\<lambda>j.
            isActive j \<and>
            (case f_keywords f of None \<Rightarrow> True | Some k \<Rightarrow> k = [] \<or> textSearch k j) \<and>
            loc j \<and>
            (case f_remote f of None \<Rightarrow> True | Some r \<Rightarrow> remote j = r) \<and>
            (if f_h1b f then h1b (visaSponsorship j) else True) \<and>
            (if f_opt f then opt (visaSponsorship j) else True) \<and>
            (if f_stemOpt f then stemOpt (visaSponsorship j) else True) \<and>
            (case f_employmentType f of
               None \<Rightarrow> True
             | Some t \<Rightarrow> t = [] \<or> employmentType j = t) \<and>
            (case f_skills f of None \<Rightarrow> True | Some ss \<Rightarrow> ss = [] \<or> strictQuery)))"

text \<open>
  \<^verbatim>\<open>.skip(n)\<close> is refused for a negative \<open>n\<close>; \<^verbatim>\<open>.limit(0)\<close> is no limit and a negative
  limit returns as many documents as its absolute value.
\<close>

definition js_ceil_div :: "nat \<Rightarrow> int \<Rightarrow> jsnum" where
  "js_ceil_div t l =
     (if l = 0 then (if t = 0 then NaN else Infinity)
      else Num \<lceil>real t / real_of_int l\<rceil>)"

definition searchJobs ::
  "(string \<Rightarrow> job \<Rightarrow> bool) \<Rightarrow> (string \<Rightarrow> (string \<Rightarrow> bool) option) \<Rightarrow> bool \<Rightarrow>
   job list \<Rightarrow> filters \<Rightarrow> int \<Rightarrow> int \<Rightarrow> error + searchResult" where
  "searchJobs textSearch regex strictQuery db f page limit =
     (case searchJobs_query textSearch regex strictQuery f of
        Inl err \<Rightarrow> Inl err
      | Inr query \<Rightarrow>
          let skip = (page - 1) * limit in
          if skip < 0 then Inl QueryError
          else
            let found = drop (nat skip) (sort_postedDate_desc (filter query db));
                js = (if limit = 0 then found else take (nat \<bar>limit\<bar>) found);
                total = Job_countDocuments query db
            in Inr \<lparr>jobs = js,
                    pagination = \<lparr>p_total = total, p_page = page, p_limit = limit,
                                  p_pages = js_ceil_div total limit\<rparr>\<rparr>)"

subsection \<open>cleanupOldJobs\<close>

definition msPerDay :: int where
  "msPerDay = 86400000"



section \<open>linkedinAPI.ts\<close>

text \<open>\<^verbatim>\<open>LinkedInJob\<close>, a record of the provider; \<open>raw_salary_currency\<close> is \<^verbatim>\<open>salary_raw?.currency\<close>.\<close>

record linkedInJob =
  raw_id :: string
  raw_title :: string
  raw_organization :: string
  raw_locations_derived :: "string list option"
  raw_date_posted :: string
  raw_employment_type :: "string list option"
  raw_url :: string
  raw_description_text :: "string option"
  raw_external_apply_url :: "string option"
  raw_salary_currency :: "string option"
  raw_seniority :: "string option"
  raw_remote_derived :: "bool option"

definition mapJobType :: "string option \<Rightarrow> string" where
  "mapJobType jobType =
     (case jobType of
        None \<Rightarrow> ''FULL_TIME''
      | Some jt \<Rightarrow>
          if jt = [] then ''FULL_TIME''
          else let type = toUpperCase jt in
            if str_includes type ''INTERN'' then ''INTERNSHIP''
            else if str_includes type ''PART'' then ''PART_TIME''
            else if str_includes type ''CONTRACT'' then ''CONTRACT''
            else if str_includes type ''TEMP'' then ''TEMPORARY''
            else if str_includes type ''FULL'' \<or> type = ''F'' then ''FULL_TIME''
            else if type = ''I'' then ''INTERNSHIP''
            else if type = ''P'' then ''PART_TIME''
            else if type = ''C'' then ''CONTRACT''
            else ''FULL_TIME'')"

definition mapExperienceLevel :: "string option \<Rightarrow> string" where
  "mapExperienceLevel level =
     (case level of
        None \<Rightarrow> ''ENTRY''
      | Some l \<Rightarrow>
          if l = [] then ''ENTRY''
          else let normalized = toLowerCase l in
            if str_includes normalized ''entry'' \<or> str_includes normalized ''junior'' \<or>
               normalized = ''1'' then ''ENTRY''
            else if str_includes normalized ''mid'' \<or> str_includes normalized ''associate'' \<or>
               normalized = ''2'' then ''MID''
            else if str_includes normalized ''senior'' \<or> str_includes normalized ''lead'' \<or>
               normalized = ''3'' \<or> normalized = ''4'' then ''SENIOR''
            else if str_includes normalized ''executive'' \<or> normalized = ''5'' then ''EXECUTIVE''
            else ''ENTRY'')"

datatype timeUnit = Minute | Hour | Day | Week | Month

text \<open>
  \<open>isoParse\<close> is \<^verbatim>\<open>new Date(postedTime)\<close>, \<open>None\<close> for an invalid date; \<open>relMatch\<close> is the
  match of the pattern for ``N units ago'', giving the number and the unit.
\<close>

definition parsePostedDate ::
  "int \<Rightarrow> (string \<Rightarrow> int option) \<Rightarrow> (string \<Rightarrow> (nat \<times> timeUnit) option) \<Rightarrow> string \<Rightarrow> int" where
  "parsePostedDate now isoParse relMatch postedTime =
     (if postedTime = [] then now
      else case isoParse postedTime of
        Some isoDate \<Rightarrow> isoDate
      | None \<Rightarrow>
          (case relMatch postedTime of
             Some (v, unit) \<Rightarrow>
               (case unit of
                  Minute \<Rightarrow> now - int v * 60 * 1000
                | Hour \<Rightarrow> now - int v * 60 * 60 * 1000
                | Day \<Rightarrow> now - int v * 24 * 60 * 60 * 1000
                | Week \<Rightarrow> now - int v * 7 * 24 * 60 * 60 * 1000
                | Month \<Rightarrow> now - int v * 30 * 24 * 60 * 60 * 1000)
           | None \<Rightarrow> now))"

definition first_opt :: "'a list option \<Rightarrow> 'a option" where
  "first_opt a = (case a of Some (x # xs) \<Rightarrow> Some x | _ \<Rightarrow> None)"

definition transformLinkedInJob ::
  "int \<Rightarrow> (string \<Rightarrow> int option) \<Rightarrow> (string \<Rightarrow> (nat \<times> timeUnit) option) \<Rightarrow>
   linkedInJob \<Rightarrow> linkedInTransformed" where
  "transformLinkedInJob now isoParse relMatch job =
     (let employmentType = mapJobType (first_opt (raw_employment_type job));
          experienceLevel = mapExperienceLevel (raw_seniority job)
      in \<lparr>li_sourceJobId = raw_id job,
          li_source = ''LINKEDIN'',
          li_title = raw_title job,
          li_company = raw_organization job,
          li_location = opt_or (first_opt (raw_locations_derived job)) ''Remote'',
          li_description = opt_or (raw_description_text job) ''No description available'',
          li_salaryCurrency = Some (opt_or (raw_salary_currency job) ''USD''),
          li_remote = (case raw_remote_derived job of None \<Rightarrow> False | Some b \<Rightarrow> b),
          li_employmentType = employmentType,
          li_postedDate = parsePostedDate now isoParse relMatch (raw_date_posted job),
          li_applicationUrl = opt_or (raw_external_apply_url job) (raw_url job),
          li_experienceLevel = Some experienceLevel,
          li_skills = Some []\<rparr>)"

definition transformLinkedInJobs ::
  "int \<Rightarrow> (string \<Rightarrow> int option) \<Rightarrow> (string \<Rightarrow> (nat \<times> timeUnit) option) \<Rightarrow>
   linkedInJob list \<Rightarrow> linkedInTransformed list" where
  "transformLinkedInJobs now isoParse relMatch data =
     map (transformLinkedInJob now isoParse relMatch) data"

definition getMockLinkedInJobs :: "int \<Rightarrow> linkedInTransformed list" where
  "getMockLinkedInJobs now =
     [\<lparr>li_sourceJobId = ''mock-linkedin-1'', li_source = ''LINKEDIN-MOCK'',
       li_title = ''Software Engineering Intern - Summer 2025'', li_company = ''Microsoft'',
       li_location = ''Redmond, WA'',
       li_description = ''Join our team as a Software Engineering Intern. Work on real projects that impact millions of users. Requirements: CS major, proficiency in C#, Java, or Python.'',
       li_salaryCurrency = Some ''USD'', li_remote = False,
       li_employmentType = ''INTERNSHIP'', li_postedDate = now,
       li_applicationUrl = ''https://example.com/jobs/1'',
       li_experienceLevel = Some ''ENTRY'',
       li_skills = Some [''C#'', ''Java'', ''Python'', ''Azure'']\<rparr>,
      \<lparr>li_sourceJobId = ''mock-linkedin-2'', li_source = ''LINKEDIN-MOCK'',
       li_title = ''Product Management Intern'', li_company = ''Google'',
       li_location = ''Mountain View, CA'',
       li_description = ''Work alongside experienced Product Managers to define product strategy and roadmap. Perfect for MBA or CS students with strong analytical skills.'',
       li_salaryCurrency = Some ''USD'', li_remote = False,
       li_employmentType = ''INTERNSHIP'', li_postedDate = now,
       li_applicationUrl = ''https://example.com/jobs/2'',
       li_experienceLevel = Some ''ENTRY'',
       li_skills = Some [''Product Management'', ''SQL'', ''Analytics'']\<rparr>,
      \<lparr>li_sourceJobId = ''mock-linkedin-3'', li_source = ''LINKEDIN-MOCK'',
       li_title = ''Frontend Developer - Remote'', li_company = ''Shopify'',
       li_location = ''Remote'',
       li_description = ''Build beautiful, performant user interfaces for our e-commerce platform. Work with React, TypeScript, and modern web technologies.'',
       li_salaryCurrency = Some ''USD'', li_remote = True,
       li_employmentType = ''FULL_TIME'', li_postedDate = now,
       li_applicationUrl = ''https://example.com/jobs/3'',
       li_experienceLevel = Some ''ENTRY'',
       li_skills = Some [''React'', ''TypeScript'', ''CSS'', ''GraphQL'']\<rparr>]"

subsection \<open>fetchLinkedInMultiple\<close>

definition locationFilters :: "string list" where
  "locationFilters =
     [''United States'',
      ''New York OR San Francisco OR Seattle OR Austin OR Boston'',
      ''Chicago OR Denver OR Los Angeles OR San Diego OR Portland'',
      ''Remote'']"

text \<open>\<^verbatim>\<open>response.data\<close>: nothing, something that is not an array, or an array.\<close>

datatype response_data = NoData | NotArray | Array "linkedInJob list"

text \<open>
  The \<^verbatim>\<open>forEach\<close> over one transformed batch: \<open>allJobs\<close> and \<open>seenJobIds\<close> are the
  two accumulators of the source.
\<close>

definition add_unique ::
  "linkedInTransformed \<Rightarrow> linkedInTransformed list \<times> string set \<Rightarrow>
   linkedInTransformed list \<times> string set" where
  "add_unique job st =
     (case st of (allJobs, seenJobIds) \<Rightarrow>
        if li_sourceJobId job \<notin> seenJobIds
        then (allJobs @ [job], insert (li_sourceJobId job) seenJobIds)
        else (allJobs, seenJobIds))"

text \<open>
  One round of the loop over the location filters. \<open>axiosGet loc\<close> is the outcome
  of the request with the filter \<open>loc\<close>, \<open>Inl\<close> when it throws; the inner \<^verbatim>\<open>catch\<close> logs and
  goes on.
\<close>

definition fetch_location ::
  "int \<Rightarrow> (string \<Rightarrow> int option) \<Rightarrow> (string \<Rightarrow> (nat \<times> timeUnit) option) \<Rightarrow>
   (string \<Rightarrow> error + response_data) \<Rightarrow> string \<Rightarrow>
   linkedInTransformed list \<times> string set \<Rightarrow> linkedInTransformed list \<times> string set" where
  "fetch_location now isoParse relMatch axiosGet loc st =
     (case axiosGet loc of
        Inl err \<Rightarrow> st
      | Inr data \<Rightarrow>
          (case data of
             Array js \<Rightarrow>
               if js \<noteq> [] then
                 fold add_unique (transformLinkedInJobs now isoParse relMatch js) st
               else st
           | _ \<Rightarrow> st))"

definition fetch_locations ::
  "int \<Rightarrow> (string \<Rightarrow> int option) \<Rightarrow> (string \<Rightarrow> (nat \<times> timeUnit) option) \<Rightarrow>
   (string \<Rightarrow> error + response_data) \<Rightarrow> string list \<Rightarrow> linkedInTransformed list" where
  "fetch_locations now isoParse relMatch axiosGet locs =
     fst (fold (fetch_location now isoParse relMatch axiosGet) locs ([], {}))"

text \<open>
  \<open>rapidApiKey\<close> is \<^verbatim>\<open>process.env.RAPIDAPI_KEY\<close>. Nothing inside the outer \<^verbatim>\<open>try\<close>
  throws past the inner one, so its \<^verbatim>\<open>catch\<close> has no branch here.
\<close>

definition fetchLinkedInMultiple ::
  "string option \<Rightarrow> int \<Rightarrow> (string \<Rightarrow> int option) \<Rightarrow> (string \<Rightarrow> (nat \<times> timeUnit) option) \<Rightarrow>
   (string \<Rightarrow> error + response_data) \<Rightarrow> linkedInTransformed list" where
  "fetchLinkedInMultiple rapidApiKey now isoParse relMatch axiosGet =
     (if opt_or rapidApiKey [] = [] then getMockLinkedInJobs now
      else fetch_locations now isoParse relMatch axiosGet locationFilters)"

text \<open>
  What the deduplication is meant to compute, in the words of its comment: of the jobs
  fetched, in fetch order, the one at position \<open>i\<close> is kept when no job before it has
  the same \<^verbatim>\<open>sourceJobId\<close>.
\<close>

definition first_occurrences :: "linkedInTransformed list \<Rightarrow> linkedInTransformed list" where
  "first_occurrences js =
     map (\<lambda>i. js ! i)
       (filter (\<lambda>i. li_sourceJobId (js ! i) \<notin> li_sourceJobId ` set (take i js))
          [0..<length js])"

text \<open>The jobs of one batch, as the loop sees them.\<close>

definition batch_jobs ::
  "int \<Rightarrow> (string \<Rightarrow> int option) \<Rightarrow> (string \<Rightarrow> (nat \<times> timeUnit) option) \<Rightarrow>
   (string \<Rightarrow> error + response_data) \<Rightarrow> string \<Rightarrow> linkedInTransformed list" where
  "batch_jobs now isoParse relMatch axiosGet loc =
     (case axiosGet loc of
        Inr (Array js) \<Rightarrow> transformLinkedInJobs now isoParse relMatch js
      | _ \<Rightarrow> [])"

section \<open>Mock data of the Handshake adapter\<close>

definition getMockUniversityJobs :: "int \<Rightarrow> handshakeJob list" where
  "getMockUniversityJobs now =
     [\<lparr>hs_sourceJobId = ''mock-handshake-1'', hs_source = ''HANDSHAKE-MOCK'',
       hs_title = ''Software Engineering Intern'', hs_company = ''Tech Corp'',
       hs_location = ''San Francisco, CA'',
       hs_description = ''Great internship opportunity for students. Join our team and work on cutting-edge technology projects. Requirements: Computer Science major, proficiency in JavaScript/TypeScript, React, Node.js.'',
       hs_salaryCurrency = Some ''USD'', hs_remote = False,
       hs_employmentType = ''internship'', hs_postedDate = now,
       hs_url = ''https://example.com/jobs/1'', hs_isCampusExclusive = Some True,
       hs_experienceLevel = Some ''entry'',
       hs_skills = Some [''JavaScript'', ''TypeScript'', ''React'', ''Node.js'']\<rparr>,
      \<lparr>hs_sourceJobId = ''mock-handshake-2'', hs_source = ''HANDSHAKE-MOCK'',
       hs_title = ''Data Science Intern'', hs_company = ''Analytics Inc'',
       hs_location = ''Remote'',
       hs_description = ''Work with our data science team to analyze large datasets and build predictive models. Perfect for students with strong Python and statistics background.'',
       hs_salaryCurrency = Some ''USD'', hs_remote = True,
       hs_employmentType = ''internship'', hs_postedDate = now,
       hs_url = ''https://example.com/jobs/2'', hs_isCampusExclusive = Some True,
       hs_experienceLevel = Some ''entry'',
       hs_skills = Some [''Python'', ''Machine Learning'', ''Statistics'', ''SQL'']\<rparr>,
      \<lparr>hs_sourceJobId = ''mock-handshake-3'', hs_source = ''HANDSHAKE-MOCK'',
       hs_title = ''Product Management Intern'', hs_company = ''StartupXYZ'',
       hs_location = ''New York, NY'',
       hs_description = ''Join our product team and help shape the future of our platform. Great opportunity to learn product management skills and work cross-functionally.'',
       hs_salaryCurrency = Some ''USD'', hs_remote = False,
       hs_employmentType = ''internship'', hs_postedDate = now,
       hs_url = ''https://example.com/jobs/3'', hs_isCampusExclusive = Some True,
       hs_experienceLevel = Some ''entry'',
       hs_skills = Some [''Product Management'', ''Agile'', ''User Research'']\<rparr>,
      \<lparr>hs_sourceJobId = ''mock-handshake-4'', hs_source = ''HANDSHAKE-MOCK'',
       hs_title = ''UX/UI Design Intern'', hs_company = ''Design Studio'',
       hs_location = ''Austin, TX'',
       hs_description = ''Work alongside experienced designers to create beautiful and intuitive user interfaces. Portfolio required.'',
       hs_salaryCurrency = Some ''USD'', hs_remote = False,
       hs_employmentType = ''internship'', hs_postedDate = now,
       hs_url = ''https://example.com/jobs/4'', hs_isCampusExclusive = Some True,
       hs_experienceLevel = Some ''entry'',
       hs_skills = Some [''Figma'', ''Adobe XD'', ''UI Design'', ''UX Research'']\<rparr>,
      \<lparr>hs_sourceJobId = ''mock-handshake-5'', hs_source = ''HANDSHAKE-MOCK'',
       hs_title = ''Full Stack Developer - New Grad'', hs_company = ''Enterprise Solutions'',
       hs_location = ''Seattle, WA'',
       hs_description = ''Full-time position for recent graduates. Build scalable web applications using modern technologies. H1B sponsorship available.'',
       hs_salaryCurrency = Some ''USD'', hs_remote = False,
       hs_employmentType = ''full-time'', hs_postedDate = now,
       hs_url = ''https://example.com/jobs/5'', hs_isCampusExclusive = Some True,
       hs_experienceLevel = Some ''entry'',
       hs_skills = Some [''JavaScript'', ''React'', ''Node.js'', ''PostgreSQL'', ''AWS'']\<rparr>]"

section \<open>The schema validators\<close>

definition experienceLevel_enum :: "string list" where
  "experienceLevel_enum = [''ENTRY'', ''MID'', ''SENIOR'', ''LEAD'', ''EXECUTIVE'']"

definition source_enum :: "string list" where
  "source_enum = [''USAJOBS'', ''REMOTEOK'', ''ARBEITNOW'', ''CAREERJET'', ''JOOBLE'',
     ''UNIVERSITY'', ''HANDSHAKE'', ''HANDSHAKE-MOCK'', ''LINKEDIN'', ''LINKEDIN-MOCK'', ''MANUAL'']"

text \<open>
  The \<^verbatim>\<open>required\<close> and \<^verbatim>\<open>enum\<close> validators of the schema, as they judge a new
  document (a required string must not be empty). The properties below hold for every
  validator; the examples use this one.
\<close>

definition JobSchema_validate :: "job \<Rightarrow> bool" where
  "JobSchema_validate j \<longleftrightarrow>
     title j \<noteq> [] \<and> company j \<noteq> [] \<and> location j \<noteq> [] \<and> description j \<noteq> [] \<and>
     employmentType j \<in> set employmentType_enum \<and>
     experienceLevel j \<in> set experienceLevel_enum \<and>
     source j \<in> set source_enum \<and> sourceJobId j \<noteq> [] \<and> sourceUrl j \<noteq> [] \<and>
     applicationUrl j \<noteq> []"

section \<open>Notions used to state the properties\<close>

text \<open>
  A well-formed collection: no two documents share an \<^verbatim>\<open>_id\<close>, and none share the
  pair of the unique index.
\<close>

definition store_ok :: "job list \<Rightarrow> bool" where
  "store_ok db \<longleftrightarrow> distinct (map job_id db) \<and> distinct (map job_key db)"

text \<open>
  Upsert by key, in the words of the specification: when a stored document has the key,
  that document takes the fields of \<open>doc\<close> where it stands and nothing else changes;
  when none has, one new document is appended, unless the validators reject it.
\<close>

definition upserted ::
  "string \<times> string \<Rightarrow> (job \<Rightarrow> job) \<Rightarrow> (job \<Rightarrow> bool) \<Rightarrow> int \<Rightarrow> job list \<Rightarrow> job list \<Rightarrow> bool" where
  "upserted key doc validate now db db' \<longleftrightarrow>
     (if key \<in> job_key ` set db
      then db' = map (\<lambda>j. if job_key j = key then doc j else j) db
      else db' = (let d = doc (schemaDefaults now (freshId db))
                  in if validate d then db @ [d] else db))"

text \<open>A \<^verbatim>\<open>jobDoc\<close> that writes the key \<open>(s, i)\<close> and leaves the \<^verbatim>\<open>_id\<close> alone.\<close>

definition writes_key :: "(job \<Rightarrow> job) \<Rightarrow> string \<Rightarrow> string \<Rightarrow> bool" where
  "writes_key doc s i \<longleftrightarrow>
     (\<forall>j. source (doc j) = s \<and> sourceJobId (doc j) = i \<and> job_id (doc j) = job_id j)"

text \<open>The records a source delivered: none when its fetch threw.\<close>

definition jobs_of :: "error + 'a list \<Rightarrow> 'a list" where
  "jobs_of r = (case r of Inl err \<Rightarrow> [] | Inr js \<Rightarrow> js)"





text \<open>
  The jobs of \<open>xs\<close> whose \<^verbatim>\<open>sourceJobId\<close> is neither in \<open>seen\<close> nor carried by an
  earlier job of \<open>xs\<close>.
\<close>

fun keep_new :: "string set \<Rightarrow> linkedInTransformed list \<Rightarrow> linkedInTransformed list" where
  "keep_new seen [] = []"
| "keep_new seen (x # xs) =
     (if li_sourceJobId x \<in> seen then keep_new seen xs
      else x # keep_new (insert (li_sourceJobId x) seen) xs)"

section \<open>Example data\<close>

text \<open>
  A record of the provider \<^verbatim>\<open>usajobs\<close>, the document it is stored as at time 0, two
  later postings, and the same record carrying an H-1B flag.
\<close>

definition example_posting :: jobApiResponse where
  "example_posting =
     \<lparr>api_id = ''42'', api_title = Some ''Park Ranger'', api_company = Some ''National Park Service'',
      api_location = Some ''Moab, UT'', api_description = Some ''Patrol and visitor services.'',
      api_employmentType = Some ''Full-time'', api_remote = None, api_salary_currency = None,
      api_visaSponsorship = None, api_source = ''usajobs'',
      api_url = Some ''https://example.com/42'', api_postedDate = Some 0, api_skills = None\<rparr>"

definition example_stored :: job where
  "example_stored =
     \<lparr>job_id = 1, title = ''Park Ranger'', company = ''National Park Service'',
      location = ''Moab, UT'', description = ''Patrol and visitor services.'',
      requirements = [], responsibilities = [], employmentType = ''FULL_TIME'',
      experienceLevel = ''MID'', remote = False, salaryCurrency = ''USD'',
      visaSponsorship = no_visa, source = ''USAJOBS'', sourceJobId = ''42'',
      sourceUrl = ''https://example.com/42'', isUniversityJob = False,
      isCampusExclusive = False, postedDate = 0, applicationUrl = ''https://example.com/42'',
      skillsRequired = [], industryTags = [], views = 0, applications = 0, isActive = True,
      isFeatured = False, lastRefreshed = 0\<rparr>"

definition example_recent :: job where
  "example_recent =
     example_stored\<lparr>job_id := 2, sourceJobId := ''43'', postedDate := 25 * msPerDay\<rparr>"

definition example_mid :: job where
  "example_mid =
     example_stored\<lparr>job_id := 3, sourceJobId := ''44'', postedDate := 10 * msPerDay\<rparr>"

definition example_sponsored_posting :: jobApiResponse where
  "example_sponsored_posting =
     example_posting\<lparr>api_visaSponsorship := Some \<lparr>h1b = True, opt = False, stemOpt = False\<rparr>\<rparr>"

text \<open>
  Providers of which \<^verbatim>\<open>usajobs\<close> delivers the record and \<^verbatim>\<open>remoteok\<close> throws.
\<close>

definition example_fetchJobs :: "string \<Rightarrow> error + jobApiResponse list" where
  "example_fetchJobs name =
     (if name = ''usajobs'' then Inr [example_posting]
      else if name = ''remoteok'' then Inl (FetchError ''timeout'')
      else Inr [])"

text \<open>
  The document the fifth mock posting of the Handshake adapter is stored as at time 0.
\<close>

definition example_handshake_stored :: job where
  "example_handshake_stored =
     \<lparr>job_id = 1, title = ''Full Stack Developer - New Grad'',
      company = ''Enterprise Solutions'', location = ''Seattle, WA'',
      description = ''Full-time position for recent graduates. Build scalable web applications using modern technologies. H1B sponsorship available.'',
      requirements = [], responsibilities = [], employmentType = ''FULL_TIME'',
      experienceLevel = ''ENTRY'', remote = False, salaryCurrency = ''USD'',
      visaSponsorship = \<lparr>h1b = False, opt = False, stemOpt = False\<rparr>,
      source = ''HANDSHAKE-MOCK'', sourceJobId = ''mock-handshake-5'',
      sourceUrl = ''https://example.com/jobs/5'', isUniversityJob = True,
      isCampusExclusive = True, postedDate = 0,
      applicationUrl = ''https://example.com/jobs/5'',
      skillsRequired = [''JavaScript'', ''React'', ''Node.js'', ''PostgreSQL'', ''AWS''],
      industryTags = [], views = 0, applications = 0, isActive = True, isFeatured = False,
      lastRefreshed = 0\<rparr>"


text \<open>
  A text index and a pattern engine for the examples: both look for the text as a
  substring ignoring case, and the engine rejects the pattern \<^verbatim>\<open>(\<close>.
\<close>

definition example_textSearch :: "string \<Rightarrow> job \<Rightarrow> bool" where
  "example_textSearch k j = str_includes (toUpperCase (title j)) (toUpperCase k)"

definition example_regex :: "string \<Rightarrow> (string \<Rightarrow> bool) option" where
  "example_regex p =
     (if p = ''('' then None else Some (\<lambda>s. str_includes (toUpperCase s) (toUpperCase p)))"

definition example_no_filters :: filters where
  "example_no_filters =
     \<lparr>f_keywords = None, f_location = None, f_remote = None, f_h1b = False, f_opt = False,
      f_stemOpt = False, f_employmentType = None, f_skills = None\<rparr>"

text \<open>
  Answers of the LinkedIn provider: two batches that share the job \<^verbatim>\<open>b\<close>, one request
  that throws and one empty reply.
\<close>

definition example_raw :: "string \<Rightarrow> string \<Rightarrow> linkedInJob" where
  "example_raw i t =
     \<lparr>raw_id = i, raw_title = t, raw_organization = ''Initech'',
      raw_locations_derived = Some [''Austin, TX''], raw_date_posted = ''2 days ago'',
      raw_employment_type = Some [''FULL_TIME''], raw_url = ''https://example.com/job'',
      raw_description_text = None, raw_external_apply_url = None,
      raw_salary_currency = None, raw_seniority = Some ''Mid-Senior level'',
      raw_remote_derived = None\<rparr>"

definition example_axiosGet :: "string \<Rightarrow> error + response_data" where
  "example_axiosGet loc =
     (if loc = ''United States''
      then Inr (Array [example_raw ''a'' ''Analyst'', example_raw ''b'' ''Builder''])
      else if loc = ''Remote''
      then Inr (Array [example_raw ''b'' ''Builder (remote)'', example_raw ''c'' ''Clerk''])
      else if loc = ''Chicago OR Denver OR Los Angeles OR San Diego OR Portland''
      then Inl (FetchError ''429'')
      else Inr NoData)"

definition example_isoParse :: "string \<Rightarrow> int option" where
  "example_isoParse s = None"

definition example_relMatch :: "string \<Rightarrow> (nat \<times> timeUnit) option" where
  "example_relMatch s = (if s = ''2 days ago'' then Some (2, Day) else None)"

chapter \<open>Properties\<close>

section \<open>Strings\<close>

lemma char_eq_char_of: "c = char_of (n::nat) \<longleftrightarrow> take_bit 8 n = of_char c"
  using char_of_eq_iff [of n c] by auto

lemmas upper_eval = toUpperCase_def toUpperChar_def char_of_eq_iff char_eq_char_of






section \<open>mapEmploymentType\<close>

lemma mapEmploymentType_enum_fixed:
  "mapEmploymentType (Some ''FULL_TIME'') = ''FULL_TIME''"
  "mapEmploymentType (Some ''PART_TIME'') = ''PART_TIME''"
  "mapEmploymentType (Some ''CONTRACT'') = ''CONTRACT''"
  "mapEmploymentType (Some ''INTERNSHIP'') = ''INTERNSHIP''"
  "mapEmploymentType (Some ''TEMPORARY'') = ''TEMPORARY''"
  by (simp_all add: mapEmploymentType_def toUpperCase_def toUpperChar_def)

lemma mapEmploymentType_cases:
  "mapEmploymentType type = ''FULL_TIME'' \<or> mapEmploymentType type = ''PART_TIME'' \<or>
   mapEmploymentType type = ''CONTRACT'' \<or> mapEmploymentType type = ''INTERNSHIP'' \<or>
   mapEmploymentType type = ''TEMPORARY''"
  by (simp add: mapEmploymentType_def Let_def split: option.split)




text \<open>
  C9. \<^verbatim>\<open>mapEmploymentType\<close> is idempotent, and each of the five values it can produce is
  mapped to itself.
\<close>

theorem mapEmploymentType_idempotent:
  "mapEmploymentType (Some (mapEmploymentType type)) = mapEmploymentType type \<and>
   (\<forall>v \<in> set employmentType_enum. mapEmploymentType (Some v) = v)"
proof
  show "mapEmploymentType (Some (mapEmploymentType type)) = mapEmploymentType type"
    using mapEmploymentType_cases [of type]
    by (elim disjE) (simp_all only: mapEmploymentType_enum_fixed)
next
  show "\<forall>v \<in> set employmentType_enum. mapEmploymentType (Some v) = v"
    by (simp add: employmentType_enum_def mapEmploymentType_enum_fixed)
qed

theorem mapEmploymentType_idempotent_witness:
  "mapEmploymentType (Some ''temp agency'') = ''TEMPORARY'' \<and>
   mapEmploymentType (Some (mapEmploymentType (Some ''temp agency''))) = ''TEMPORARY'' \<and>
   ''TEMPORARY'' \<in> set employmentType_enum \<and>
   mapEmploymentType (Some ''TEMPORARY'') = ''TEMPORARY''"
proof -
  have a: "mapEmploymentType (Some ''temp agency'') = ''TEMPORARY''"
    by (simp add: mapEmploymentType_def upper_eval)
  have b: "''TEMPORARY'' \<in> set employmentType_enum"
    by (simp add: employmentType_enum_def)
  from mapEmploymentType_idempotent [of "Some ''temp agency''"] a b
  show ?thesis by simp
qed

section \<open>Upsert on the collection\<close>

lemma findOne_None: "Job_findOne s i db = None \<longleftrightarrow> (s, i) \<notin> job_key ` set db"
  by (auto simp: Job_findOne_def find_None_iff job_key_def)

lemma findOne_Some:
  "Job_findOne s i db = Some e \<Longrightarrow> e \<in> set db \<and> job_key e = (s, i)"
  by (auto simp: Job_findOne_def find_Some_iff job_key_def)

lemma update_in_place:
  assumes "distinct (map job_id db)" "distinct (map job_key db)" "e \<in> set db"
  shows "Job_findByIdAndUpdate (job_id e) doc db =
         map (\<lambda>j. if job_key j = job_key e then doc j else j) db"
  using assms
proof (induction db)
  case Nil
  then show ?case by simp
next
  case (Cons j js)
  show ?case
  proof (cases "j = e")
    case True
    with Cons.prems have "job_key e \<notin> job_key ` set js" by simp
    then have "\<forall>x \<in> set js. job_key x \<noteq> job_key e" by (metis imageI)
    then have "map (\<lambda>j. if job_key j = job_key e then doc j else j) js = js"
      by (simp add: map_idI)
    with True show ?thesis by simp
  next
    case False
    with Cons.prems have e: "e \<in> set js" by simp
    with Cons.prems have "job_id j \<noteq> job_id e" "job_key j \<noteq> job_key e" by force+
    with Cons e show ?thesis by simp
  qed
qed

lemma freshId_new: "freshId db \<notin> job_id ` set db"
proof
  assume "freshId db \<in> job_id ` set db"
  then have "freshId db \<in> set (0 # map job_id db)" by simp
  then have "freshId db \<le> Max (set (0 # map job_id db))" by (intro Max_ge) simp_all
  then show False by (simp only: Max.set_eq_fold freshId_def)
qed

lemma upsert_upserted:
  assumes "store_ok db" "writes_key doc s i"
  shows "upserted (s, i) doc validate now db
           (upsert validate now (Job_findOne s i db) doc db)"
proof (cases "Job_findOne s i db")
  case None
  then have nk: "(s, i) \<notin> job_key ` set db" by (simp add: findOne_None)
  from assms(2) have "job_key (doc (schemaDefaults now (freshId db))) = (s, i)"
    by (simp add: writes_key_def job_key_def)
  with nk have "\<not> list_ex (\<lambda>j. job_key j = job_key (doc (schemaDefaults now (freshId db)))) db"
    by (force simp: list_ex_iff)
  with None nk show ?thesis
    by (simp add: upserted_def upsert_def Job_create_def Let_def)
next
  case (Some e)
  then have e: "e \<in> set db" "job_key e = (s, i)" by (auto dest: findOne_Some)
  then have "(s, i) \<in> job_key ` set db" by force
  with Some e assms(1) show ?thesis
    by (simp add: upserted_def upsert_def store_ok_def update_in_place)
qed

lemma upserted_store_ok:
  assumes "store_ok db" "writes_key doc s i" "upserted (s, i) doc validate now db db'"
  shows "store_ok db'"
proof (cases "(s, i) \<in> job_key ` set db")
  case True
  with assms(3) have db': "db' = map (\<lambda>j. if job_key j = (s, i) then doc j else j) db"
    by (simp add: upserted_def)
  have "map job_id db' = map job_id db" "map job_key db' = map job_key db"
    using assms(2) unfolding db' by (auto simp: writes_key_def job_key_def)
  with assms(1) show ?thesis by (simp add: store_ok_def)
next
  case False
  let ?d = "doc (schemaDefaults now (freshId db))"
  from assms(2) have d: "job_key ?d = (s, i)" "job_id ?d = freshId db"
    by (simp_all add: writes_key_def job_key_def schemaDefaults_def)
  from False assms(3) have "db' = db @ [?d] \<or> db' = db"
    by (auto simp: upserted_def Let_def split: if_splits)
  with assms(1) False d freshId_new [of db] show ?thesis
    by (auto simp: store_ok_def)
qed

lemma upserted_field:
  assumes "upserted key doc validate now db db'" "j \<in> set db'" "job_key j = key"
    "\<And>j. P (doc j)"
  shows "P j"
proof (cases "key \<in> job_key ` set db")
  case True
  with assms(1) have "db' = map (\<lambda>j. if job_key j = key then doc j else j) db"
    by (simp add: upserted_def)
  with assms(2) obtain x where "x \<in> set db" "j = (if job_key x = key then doc x else x)"
    by auto
  with assms(3,4) show ?thesis by (cases "job_key x = key") auto
next
  case False
  with assms(1) have "db' = db @ [doc (schemaDefaults now (freshId db))] \<or> db' = db"
    by (auto simp: upserted_def Let_def split: if_splits)
  with assms(2) have "j \<in> set db \<or> j = doc (schemaDefaults now (freshId db))" by auto
  with False assms(3,4) show ?thesis by auto
qed


section \<open>The save routines\<close>

lemma writes_key_saveJob:
  "writes_key (saveJob_jobDoc now g) (toUpperCase (api_source g)) (api_id g)"
  by (simp add: writes_key_def saveJob_jobDoc_def)

lemma writes_key_saveHandshakeJob:
  "writes_key (saveHandshakeJob_jobDoc now h) (hs_source h) (hs_sourceJobId h)"
  by (simp add: writes_key_def saveHandshakeJob_jobDoc_def)

lemma writes_key_saveLinkedInJob:
  "writes_key (saveLinkedInJob_jobDoc now l) (li_source l) (li_sourceJobId l)"
  by (simp add: writes_key_def saveLinkedInJob_jobDoc_def)

lemma saveJob_upserted:
  "store_ok db \<Longrightarrow>
   upserted (toUpperCase (api_source g), api_id g) (saveJob_jobDoc now g) validate now db
     (saveJob validate now db g)"
  unfolding saveJob_def Let_def by (rule upsert_upserted [OF _ writes_key_saveJob])

lemma saveHandshakeJob_upserted:
  "store_ok db \<Longrightarrow>
   upserted (hs_source h, hs_sourceJobId h) (saveHandshakeJob_jobDoc now h) validate now db
     (saveHandshakeJob validate now db h)"
  unfolding saveHandshakeJob_def Let_def
  by (rule upsert_upserted [OF _ writes_key_saveHandshakeJob])

lemma saveLinkedInJob_upserted:
  "store_ok db \<Longrightarrow>
   upserted (li_source l, li_sourceJobId l) (saveLinkedInJob_jobDoc now l) validate now db
     (saveLinkedInJob validate now db l)"
  unfolding saveLinkedInJob_def Let_def
  by (rule upsert_upserted [OF _ writes_key_saveLinkedInJob])

lemma saveJob_store_ok: "store_ok db \<Longrightarrow> store_ok (saveJob validate now db g)"
  by (rule upserted_store_ok [OF _ writes_key_saveJob saveJob_upserted])

lemma saveHandshakeJob_store_ok:
  "store_ok db \<Longrightarrow> store_ok (saveHandshakeJob validate now db h)"
  by (rule upserted_store_ok [OF _ writes_key_saveHandshakeJob saveHandshakeJob_upserted])

lemma saveLinkedInJob_store_ok:
  "store_ok db \<Longrightarrow> store_ok (saveLinkedInJob validate now db l)"
  by (rule upserted_store_ok [OF _ writes_key_saveLinkedInJob saveLinkedInJob_upserted])




subsection \<open>The examples, evaluated\<close>

lemmas save_eval =
  saveJob_def saveHandshakeJob_def saveLinkedInJob_def upsert_def Job_findOne_def
  Job_create_def saveJob_jobDoc_def saveHandshakeJob_jobDoc_def saveLinkedInJob_jobDoc_def
  schemaDefaults_def freshId_def JobSchema_validate_def employmentType_enum_def
  experienceLevel_enum_def source_enum_def mapEmploymentType_def opt_or_def str_or_def
  job_key_def no_visa_def upper_eval


lemma example_save_again:
  "saveJob JobSchema_validate 7 [example_stored] example_posting =
     [example_stored\<lparr>lastRefreshed := 7\<rparr>]"
  by (simp add: saveJob_def upsert_def Job_findOne_def saveJob_jobDoc_def
      example_posting_def example_stored_def
      mapEmploymentType_def opt_or_def str_or_def upper_eval)

lemma example_store_ok: "store_ok [example_stored]"
  by (simp add: store_ok_def)

lemma example_save_handshake:
  "saveHandshakeJob JobSchema_validate 0 [] (getMockUniversityJobs 0 ! 4) =
     [example_handshake_stored]"
  by (simp add: getMockUniversityJobs_def saveHandshakeJob_def upsert_def Job_findOne_def
      Job_create_def saveHandshakeJob_jobDoc_def schemaDefaults_def freshId_def
      JobSchema_validate_def employmentType_enum_def experienceLevel_enum_def source_enum_def
      mapEmploymentType_def opt_or_def str_or_def job_key_def example_handshake_stored_def
      upper_eval)

lemma example_save_linkedin:
  "map isUniversityJob
     (fold (\<lambda>x db. saveLinkedInJob JobSchema_validate 0 db x) (getMockLinkedInJobs 0) []) =
     [True, True, True]"
  by (simp add: getMockLinkedInJobs_def saveLinkedInJob_def upsert_def Job_findOne_def
      Job_create_def saveLinkedInJob_jobDoc_def schemaDefaults_def freshId_def
      JobSchema_validate_def employmentType_enum_def experienceLevel_enum_def source_enum_def
      mapEmploymentType_def opt_or_def str_or_def job_key_def upper_eval)

section \<open>aggregateJobs\<close>

lemma fold_counted:
  "fold (\<lambda>x (db, totalSaved). (save db x, Suc totalSaved)) xs (db, n) =
   (fold (\<lambda>x db. save db x) xs db, n + length xs)"
  by (induction xs arbitrary: db n) simp_all

lemma aggregate_service_eq:
  "aggregate_service validate now fetchJobs name (db, n) =
   (fold (\<lambda>x db. saveJob validate now db x) (jobs_of (fetchJobs name)) db,
    n + length (jobs_of (fetchJobs name)))"
  by (simp add: aggregate_service_def jobs_of_def fold_counted split: sum.split)

lemma fold_aggregate_service:
  "fold (aggregate_service validate now fetchJobs) names (db, n) =
   (fold (\<lambda>x db. saveJob validate now db x) (concat (map (\<lambda>name. jobs_of (fetchJobs name)) names)) db,
    n + sum_list (map (\<lambda>name. length (jobs_of (fetchJobs name))) names))"
  by (induction names arbitrary: db n) (simp_all add: aggregate_service_eq)

lemma aggregateJobs_eq:
  "aggregateJobs validate now fetchJobs hs li db =
   (fold (\<lambda>x db. saveLinkedInJob validate now db x) (jobs_of li)
      (fold (\<lambda>x db. saveHandshakeJob validate now db x) (jobs_of hs)
         (fold (\<lambda>x db. saveJob validate now db x)
            (concat (map (\<lambda>name. jobs_of (fetchJobs name)) services)) db)),
    sum_list (map (\<lambda>name. length (jobs_of (fetchJobs name))) services) +
      length (jobs_of hs) + length (jobs_of li))"
  by (simp add: aggregateJobs_def Let_def fold_aggregate_service fold_counted jobs_of_def
      split: sum.split)

lemma fold_store_ok:
  "(\<And>db x. store_ok db \<Longrightarrow> store_ok (save db x)) \<Longrightarrow> store_ok db \<Longrightarrow>
   store_ok (fold (\<lambda>x db. save db x) xs db)"
  by (induction xs arbitrary: db) simp_all

lemma aggregateJobs_store_ok:
  "store_ok db \<Longrightarrow>
   store_ok (fst (aggregateJobs validate now fetchJobs hs li db))"
  by (simp add: aggregateJobs_eq fold_store_ok saveJob_store_ok saveHandshakeJob_store_ok
      saveLinkedInJob_store_ok)

lemma aggregate_runs_store_ok: "store_ok db \<Longrightarrow> store_ok (aggregate_runs rs db)"
  unfolding aggregate_runs_def
  by (induction rs arbitrary: db) (simp_all add: aggregate_run_def aggregateJobs_store_ok)






text \<open>
  C1. Each of the three save routines is an upsert by the pair (source, sourceJobId): a
  stored document with the pair is updated where it stands, and a document is created only
  when no stored document has the pair. Hence a run of \<^verbatim>\<open>aggregateJobs\<close>, and any
  sequence of runs, keeps the pairs of a well-formed collection unique, and after any
  sequence of runs that starts from the empty collection no two stored jobs share a pair.
\<close>

theorem upsert_keeps_keys_unique:
  assumes "store_ok db"
  shows "upserted (toUpperCase (api_source g), api_id g) (saveJob_jobDoc now g) validate now db
           (saveJob validate now db g) \<and>
         upserted (hs_source h, hs_sourceJobId h) (saveHandshakeJob_jobDoc now h) validate now db
           (saveHandshakeJob validate now db h) \<and>
         upserted (li_source l, li_sourceJobId l) (saveLinkedInJob_jobDoc now l) validate now db
           (saveLinkedInJob validate now db l) \<and>
         store_ok (fst (aggregateJobs validate now fetchJobs hs li db)) \<and>
         store_ok (aggregate_runs rs db) \<and>
         distinct (map job_key (aggregate_runs rs []))"
proof -
  have "store_ok []" by (simp add: store_ok_def)
  then have "store_ok (aggregate_runs rs [])" by (rule aggregate_runs_store_ok)
  then have "distinct (map job_key (aggregate_runs rs []))" by (simp add: store_ok_def)
  with assms show ?thesis
    by (simp add: saveJob_upserted saveHandshakeJob_upserted saveLinkedInJob_upserted
        aggregateJobs_store_ok aggregate_runs_store_ok)
qed

theorem upsert_keeps_keys_unique_witness:
  "store_ok [example_stored] \<and>
   saveJob JobSchema_validate 7 [example_stored] example_posting =
     [example_stored\<lparr>lastRefreshed := 7\<rparr>] \<and>
   upserted (''USAJOBS'', ''42'') (saveJob_jobDoc 7 example_posting) JobSchema_validate 7
     [example_stored] [example_stored\<lparr>lastRefreshed := 7\<rparr>] \<and>
   store_ok (fst (aggregateJobs JobSchema_validate 7 example_fetchJobs
                    (Inr (getMockUniversityJobs 7)) (Inr (getMockLinkedInJobs 7))
                    [example_stored])) \<and>
   distinct (map job_key (aggregate_runs
     [\<lparr>run_validate = JobSchema_validate, run_now = 7, run_fetchJobs = example_fetchJobs,
       run_handshakeOutcome = Inr (getMockUniversityJobs 7),
       run_linkedInOutcome = Inr (getMockLinkedInJobs 7)\<rparr>] []))"
proof -
  have k: "toUpperCase (api_source example_posting) = ''USAJOBS''"
    "api_id example_posting = ''42''"
    by (simp_all add: example_posting_def upper_eval)
  from upsert_keeps_keys_unique [OF example_store_ok,
      where g = example_posting and now = 7 and validate = JobSchema_validate
        and fetchJobs = example_fetchJobs and hs = "Inr (getMockUniversityJobs 7)"
        and li = "Inr (getMockLinkedInJobs 7)"
        and rs = "[\<lparr>run_validate = JobSchema_validate, run_now = 7,
          run_fetchJobs = example_fetchJobs,
          run_handshakeOutcome = Inr (getMockUniversityJobs 7),
          run_linkedInOutcome = Inr (getMockLinkedInJobs 7)\<rparr>]"]
  show ?thesis
    by (simp only: k example_save_again example_store_ok)
qed



section \<open>What the save routines store\<close>

text \<open>
  C2, as the code has it. The stored visa sponsorship flags of a posting saved by
  \<^verbatim>\<open>saveJob\<close> are the flags the fetched record carries, all false when it carries none;
  those of a posting saved by \<^verbatim>\<open>saveHandshakeJob\<close> or \<^verbatim>\<open>saveLinkedInJob\<close> are all
  false. No save routine reads the posting's text to set them.
\<close>

theorem visaSponsorship_as_stored:
  assumes "store_ok db"
  shows "(\<forall>j \<in> set (saveJob validate now db g).
            job_key j = (toUpperCase (api_source g), api_id g) \<longrightarrow>
            visaSponsorship j =
              (case api_visaSponsorship g of None \<Rightarrow> no_visa | Some v \<Rightarrow> v)) \<and>
         (\<forall>j \<in> set (saveHandshakeJob validate now db h).
            job_key j = (hs_source h, hs_sourceJobId h) \<longrightarrow> visaSponsorship j = no_visa) \<and>
         (\<forall>j \<in> set (saveLinkedInJob validate now db l).
            job_key j = (li_source l, li_sourceJobId l) \<longrightarrow> visaSponsorship j = no_visa)"
proof (intro conjI ballI impI)
  fix j
  assume "j \<in> set (saveJob validate now db g)"
    "job_key j = (toUpperCase (api_source g), api_id g)"
  with saveJob_upserted [OF assms, of g now validate]
  show "visaSponsorship j = (case api_visaSponsorship g of None \<Rightarrow> no_visa | Some v \<Rightarrow> v)"
    by (rule upserted_field
        [where P = "\<lambda>j. visaSponsorship j =
          (case api_visaSponsorship g of None \<Rightarrow> no_visa | Some v \<Rightarrow> v)"])
      (simp add: saveJob_jobDoc_def)
next
  fix j
  assume "j \<in> set (saveHandshakeJob validate now db h)"
    "job_key j = (hs_source h, hs_sourceJobId h)"
  with saveHandshakeJob_upserted [OF assms, of h now validate]
  show "visaSponsorship j = no_visa"
    by (rule upserted_field [where P = "\<lambda>j. visaSponsorship j = no_visa"])
      (simp add: saveHandshakeJob_jobDoc_def no_visa_def)
next
  fix j
  assume "j \<in> set (saveLinkedInJob validate now db l)"
    "job_key j = (li_source l, li_sourceJobId l)"
  with saveLinkedInJob_upserted [OF assms, of l now validate]
  show "visaSponsorship j = no_visa"
    by (rule upserted_field [where P = "\<lambda>j. visaSponsorship j = no_visa"])
      (simp add: saveLinkedInJob_jobDoc_def no_visa_def)
qed

theorem visaSponsorship_as_stored_witness:
  "store_ok [example_stored] \<and>
   job_key (hd (saveJob JobSchema_validate 7 [example_stored] example_sponsored_posting)) =
     (''USAJOBS'', ''42'') \<and>
   visaSponsorship (hd (saveJob JobSchema_validate 7 [example_stored] example_sponsored_posting)) =
     \<lparr>h1b = True, opt = False, stemOpt = False\<rparr>"
proof -
  note t = visaSponsorship_as_stored [OF example_store_ok, of JobSchema_validate 7
      example_sponsored_posting]
  have g: "hd (saveJob JobSchema_validate 7 [example_stored] example_sponsored_posting)
        \<in> set (saveJob JobSchema_validate 7 [example_stored] example_sponsored_posting)"
    "job_key (hd (saveJob JobSchema_validate 7 [example_stored] example_sponsored_posting)) =
       (toUpperCase (api_source example_sponsored_posting), api_id example_sponsored_posting)"
    "(toUpperCase (api_source example_sponsored_posting), api_id example_sponsored_posting) =
       (''USAJOBS'', ''42'')"
    "(case api_visaSponsorship example_sponsored_posting of None \<Rightarrow> no_visa | Some v \<Rightarrow> v) =
       \<lparr>h1b = True, opt = False, stemOpt = False\<rparr>"
    by (simp_all add: example_sponsored_posting_def example_posting_def example_stored_def
        save_eval)
  from t g(1,2)
  have "visaSponsorship (hd (saveJob JobSchema_validate 7 [example_stored] example_sponsored_posting)) =
     (case api_visaSponsorship example_sponsored_posting of None \<Rightarrow> no_visa | Some v \<Rightarrow> v)"
    by blast
  with g(2,3,4) example_store_ok show ?thesis by simp
qed

text \<open>
  C2, as stated, fails. The fifth mock posting of the Handshake adapter, which the
  pipeline saves when no API key is configured, says ``H1B sponsorship available'' and is
  stored with the H-1B flag false. And a generic posting whose text says nothing of visas
  is stored with the H-1B flag true when its record carries that flag.
\<close>

theorem visaSponsorship_not_classified:
  "saveHandshakeJob JobSchema_validate 0 [] (getMockUniversityJobs 0 ! 4) =
     [example_handshake_stored] \<and>
   str_includes (description example_handshake_stored) ''H1B sponsorship available'' \<and>
   h1b (visaSponsorship example_handshake_stored) = False \<and>
   description (hd (saveJob JobSchema_validate 0 [] example_sponsored_posting)) =
     ''Patrol and visitor services.'' \<and>
   title (hd (saveJob JobSchema_validate 0 [] example_sponsored_posting)) = ''Park Ranger'' \<and>
   h1b (visaSponsorship (hd (saveJob JobSchema_validate 0 [] example_sponsored_posting))) = True"
proof -
  have "str_includes (description example_handshake_stored) ''H1B sponsorship available''"
    by (simp add: example_handshake_stored_def)
  moreover have "h1b (visaSponsorship example_handshake_stored) = False"
    by (simp add: example_handshake_stored_def)
  moreover have
    "description (hd (saveJob JobSchema_validate 0 [] example_sponsored_posting)) =
       ''Patrol and visitor services.''"
    "title (hd (saveJob JobSchema_validate 0 [] example_sponsored_posting)) = ''Park Ranger''"
    "h1b (visaSponsorship (hd (saveJob JobSchema_validate 0 [] example_sponsored_posting))) = True"
    by (simp_all add: example_sponsored_posting_def example_posting_def save_eval)
  ultimately show ?thesis by (simp only: example_save_handshake simp_thms)
qed



section \<open>cleanupOldJobs\<close>







section \<open>searchJobs\<close>


lemma set_sort_postedDate_desc [simp]: "set (sort_postedDate_desc js) = set js"
  by (simp add: sort_postedDate_desc_def)

lemma sorted_sort_postedDate_desc:
  "sorted_wrt (\<lambda>a b. postedDate b \<le> postedDate a) (sort_postedDate_desc js)"
  using sorted_sort_key [of "\<lambda>j. - postedDate j" js]
  by (simp add: sort_postedDate_desc_def sorted_map)

lemma mset_sort_postedDate_desc: "mset (sort_postedDate_desc js) = mset js"
  by (simp add: sort_postedDate_desc_def)



lemma js_ceil_div_eq: "l \<noteq> 0 \<Longrightarrow> js_ceil_div t l = Num (- (- int t div l))"
  using ceiling_divide_eq_div [of "int t" l, where ?'a = real]
  by (simp add: js_ceil_div_def)

lemma ceil_div_bounds:
  assumes "0 < l"
  shows "(\<lceil>real t / real_of_int l\<rceil> - 1) * l < int t \<and> int t \<le> \<lceil>real t / real_of_int l\<rceil> * l"
proof -
  from assms have l: "0 < real_of_int l" by simp
  have "(of_int \<lceil>real t / real_of_int l\<rceil> - 1) * real_of_int l < real t"
    using ceiling_divide_lower [OF l] .
  then have "real_of_int ((\<lceil>real t / real_of_int l\<rceil> - 1) * l) < real_of_int (int t)"
    by simp
  then have a: "(\<lceil>real t / real_of_int l\<rceil> - 1) * l < int t"
    by (simp only: of_int_less_iff)
  have "real t \<le> of_int \<lceil>real t / real_of_int l\<rceil> * real_of_int l"
    using ceiling_divide_upper [OF l] .
  then have "real_of_int (int t) \<le> real_of_int (\<lceil>real t / real_of_int l\<rceil> * l)"
    by simp
  then have "int t \<le> \<lceil>real t / real_of_int l\<rceil> * l"
    by (simp only: of_int_le_iff)
  with a show ?thesis by simp
qed

lemma searchJobs_rejected:
  "searchJobs_query textSearch regex strictQuery f = Inl err \<Longrightarrow>
   searchJobs textSearch regex strictQuery db f page limit = Inl err"
  by (simp add: searchJobs_def)

lemma searchJobs_accepted:
  assumes "0 < page" "0 < limit" "searchJobs_query textSearch regex strictQuery f = Inr q"
  shows "searchJobs textSearch regex strictQuery db f page limit =
     Inr \<lparr>jobs = take (nat limit) (drop (nat ((page - 1) * limit))
                    (sort_postedDate_desc (filter q db))),
          pagination = \<lparr>p_total = length (filter q db), p_page = page, p_limit = limit,
            p_pages = Num \<lceil>real (length (filter q db)) / real_of_int limit\<rceil>\<rparr>\<rparr>"
proof -
  from assms(1,2) have "\<not> (page - 1) * limit < 0"
    by (simp add: zero_le_mult_iff not_less)
  with assms show ?thesis
    by (simp add: searchJobs_def Let_def Job_countDocuments_def js_ceil_div_def)
qed

subsection \<open>The examples, evaluated\<close>

lemma example_query:
  "searchJobs_query example_textSearch example_regex True example_no_filters = Inr isActive"
  by (simp add: searchJobs_query_def location_filter_def example_no_filters_def)





lemma example_search_page2:
  "searchJobs example_textSearch example_regex True
     [example_stored, example_recent, example_mid] example_no_filters 2 2 =
   Inr \<lparr>jobs = [example_stored],
        pagination = \<lparr>p_total = 3, p_page = 2, p_limit = 2, p_pages = Num 2\<rparr>\<rparr>"
  by (simp add: searchJobs_def example_query Let_def sort_postedDate_desc_def
      Job_countDocuments_def js_ceil_div_eq example_stored_def example_recent_def
      example_mid_def msPerDay_def)



subsection \<open>Only active jobs are returned\<close>




subsection \<open>Pagination\<close>

text \<open>
  C8. For a positive page number and a positive limit, a search the database accepts
  returns the matching jobs ordered by \<^verbatim>\<open>postedDate\<close> descending with the first
  \<open>(page - 1) * limit\<close> of them skipped and at most \<open>limit\<close> of the rest kept;
  \<^verbatim>\<open>pagination.total\<close> is the number of matching jobs and \<^verbatim>\<open>pagination.pages\<close> is the
  ceiling of total divided by limit. A query the database rejects makes the call fail
  with that error.
\<close>

theorem searchJobs_pagination:
  assumes "0 < page" "0 < limit"
  shows "case searchJobs_query textSearch regex strictQuery f of
           Inl err \<Rightarrow> searchJobs textSearch regex strictQuery db f page limit = Inl err
         | Inr query \<Rightarrow>
             (\<exists>r ordered n.
                searchJobs textSearch regex strictQuery db f page limit = Inr r \<and>
                mset ordered = mset (filter query db) \<and>
                sorted_wrt (\<lambda>a b. postedDate b \<le> postedDate a) ordered \<and>
                jobs r = take (nat limit) (drop (nat ((page - 1) * limit)) ordered) \<and>
                length (jobs r) \<le> nat limit \<and>
                pagination r =
                  \<lparr>p_total = length (filter query db), p_page = page, p_limit = limit,
                   p_pages = Num n\<rparr> \<and>
                n = \<lceil>real (length (filter query db)) / real_of_int limit\<rceil> \<and>
                (n - 1) * limit < int (length (filter query db)) \<and>
                int (length (filter query db)) \<le> n * limit)"
proof (cases "searchJobs_query textSearch regex strictQuery f")
  case (Inl err)
  then show ?thesis by (simp add: searchJobs_rejected)
next
  case (Inr q)
  let ?ordered = "sort_postedDate_desc (filter q db)"
  let ?n = "\<lceil>real (length (filter q db)) / real_of_int limit\<rceil>"
  let ?r = "\<lparr>jobs = take (nat limit) (drop (nat ((page - 1) * limit)) ?ordered),
          pagination = \<lparr>p_total = length (filter q db), p_page = page, p_limit = limit,
            p_pages = Num ?n\<rparr>\<rparr>"
  have "searchJobs textSearch regex strictQuery db f page limit = Inr ?r"
    using assms Inr by (rule searchJobs_accepted)
  moreover have "mset ?ordered = mset (filter q db)"
    by (rule mset_sort_postedDate_desc)
  moreover have "sorted_wrt (\<lambda>a b. postedDate b \<le> postedDate a) ?ordered"
    by (rule sorted_sort_postedDate_desc)
  moreover have "length (jobs ?r) \<le> nat limit" by simp
  moreover have "(?n - 1) * limit < int (length (filter q db)) \<and>
      int (length (filter q db)) \<le> ?n * limit"
    using assms(2) by (rule ceil_div_bounds)
  ultimately have "\<exists>r ordered n.
                searchJobs textSearch regex strictQuery db f page limit = Inr r \<and>
                mset ordered = mset (filter q db) \<and>
                sorted_wrt (\<lambda>a b. postedDate b \<le> postedDate a) ordered \<and>
                jobs r = take (nat limit) (drop (nat ((page - 1) * limit)) ordered) \<and>
                length (jobs r) \<le> nat limit \<and>
                pagination r =
                  \<lparr>p_total = length (filter q db), p_page = page, p_limit = limit,
                   p_pages = Num n\<rparr> \<and>
                n = \<lceil>real (length (filter q db)) / real_of_int limit\<rceil> \<and>
                (n - 1) * limit < int (length (filter q db)) \<and>
                int (length (filter q db)) \<le> n * limit"
    by (intro exI [of _ ?r] exI [of _ ?ordered] exI [of _ ?n]) simp
  with Inr show ?thesis by simp
qed

theorem searchJobs_pagination_witness:
  "searchJobs example_textSearch example_regex True
     [example_stored, example_recent, example_mid] example_no_filters 2 2 =
   Inr \<lparr>jobs = [example_stored],
        pagination = \<lparr>p_total = 3, p_page = 2, p_limit = 2, p_pages = Num 2\<rparr>\<rparr> \<and>
   length (filter isActive [example_stored, example_recent, example_mid]) = 3 \<and>
   \<lceil>real 3 / real_of_int 2\<rceil> = 2"
proof -
  have p: "(0::int) < 2" by simp
  have n: "length (filter isActive [example_stored, example_recent, example_mid]) = 3"
    by (simp add: example_stored_def example_recent_def example_mid_def)
  from searchJobs_pagination [OF p p, where textSearch = example_textSearch
      and regex = example_regex and strictQuery = True and f = example_no_filters
      and db = "[example_stored, example_recent, example_mid]"]
  obtain r k where "searchJobs example_textSearch example_regex True
     [example_stored, example_recent, example_mid] example_no_filters 2 2 = Inr r"
    "pagination r = \<lparr>p_total = 3, p_page = 2, p_limit = 2, p_pages = Num k\<rparr>"
    "k = \<lceil>real 3 / real_of_int 2\<rceil>"
    unfolding example_query sum.case n by blast
  then have "\<lceil>real 3 / real_of_int 2\<rceil> = 2"
    by (simp add: example_search_page2)
  with n show ?thesis by (simp only: example_search_page2 simp_thms)
qed

section \<open>fetchLinkedInMultiple\<close>

lemma fold_add_unique:
  "fold add_unique xs (acc, seen) =
     (acc @ keep_new seen xs, seen \<union> li_sourceJobId ` set xs)"
  by (induction xs arbitrary: acc seen) (auto simp: add_unique_def)

lemma keep_new_append:
  "keep_new seen (xs @ ys) =
     keep_new seen xs @ keep_new (seen \<union> li_sourceJobId ` set xs) ys"
  by (induction xs arbitrary: seen) (auto simp: insert_absorb)

lemma fetch_location_eq:
  "fetch_location now isoParse relMatch axiosGet loc (acc, seen) =
     (acc @ keep_new seen (batch_jobs now isoParse relMatch axiosGet loc),
      seen \<union> li_sourceJobId ` set (batch_jobs now isoParse relMatch axiosGet loc))"
  by (simp add: fetch_location_def batch_jobs_def fold_add_unique transformLinkedInJobs_def
      split: sum.split response_data.split)

lemma fold_fetch_location:
  "fold (fetch_location now isoParse relMatch axiosGet) locs (acc, seen) =
     (acc @ keep_new seen (concat (map (batch_jobs now isoParse relMatch axiosGet) locs)),
      seen \<union> li_sourceJobId `
        set (concat (map (batch_jobs now isoParse relMatch axiosGet) locs)))"
  by (induction locs arbitrary: acc seen)
    (simp_all add: fetch_location_eq keep_new_append Un_assoc image_Un)

lemma keep_new_disjoint:
  "li_sourceJobId ` set (keep_new seen xs) \<inter> seen = {}"
  by (induction xs arbitrary: seen) auto

lemma distinct_keep_new: "distinct (map li_sourceJobId (keep_new seen xs))"
proof (induction xs arbitrary: seen)
  case Nil
  then show ?case by simp
next
  case (Cons x xs)
  from keep_new_disjoint [of "insert (li_sourceJobId x) seen" xs]
  have "li_sourceJobId x \<notin> li_sourceJobId ` set (keep_new (insert (li_sourceJobId x) seen) xs)"
    by auto
  with Cons show ?case by simp
qed

lemma keep_new_positions:
  "keep_new seen xs =
     map (\<lambda>i. xs ! i)
       (filter (\<lambda>i. li_sourceJobId (xs ! i) \<notin> seen \<union> li_sourceJobId ` set (take i xs))
          [0..<length xs])"
proof (induction xs arbitrary: seen)
  case Nil
  then show ?case by simp
next
  case (Cons x xs)
  have upt: "[0..<length (x # xs)] = 0 # map Suc [0..<length xs]"
    by (simp add: upt_conv_Cons map_Suc_upt del: upt_Suc)
  show ?case
  proof (cases "li_sourceJobId x \<in> seen")
    case True
    then have ne: "\<And>y. y \<notin> seen \<Longrightarrow> (y \<noteq> li_sourceJobId x) = True" by auto
    from True Cons [of seen] show ?thesis
      unfolding upt by (simp add: filter_map o_def ne cong: conj_cong)
  next
    case False
    with Cons [of "insert (li_sourceJobId x) seen"] show ?thesis
      unfolding upt by (simp add: filter_map o_def conj_ac)
  qed
qed

lemma fetch_locations_eq:
  "fetch_locations now isoParse relMatch axiosGet locs =
     first_occurrences (concat (map (batch_jobs now isoParse relMatch axiosGet) locs))"
  by (simp add: fetch_locations_def fold_fetch_location first_occurrences_def
      keep_new_positions [of "{}"])

lemma distinct_fetch_locations:
  "distinct (map li_sourceJobId (fetch_locations now isoParse relMatch axiosGet locs))"
  by (simp add: fetch_locations_def fold_fetch_location distinct_keep_new)

lemma distinct_getMockLinkedInJobs:
  "distinct (map li_sourceJobId (getMockLinkedInJobs now))"
  by (simp add: getMockLinkedInJobs_def)

text \<open>
  C7. The list \<^verbatim>\<open>fetchLinkedInMultiple\<close> returns has no two jobs with the same
  \<^verbatim>\<open>sourceJobId\<close>. Whatever the list and order of the location filters and whatever
  each request answers, the loop returns, of all jobs fetched in fetch order, exactly the
  first occurrence of every \<^verbatim>\<open>sourceJobId\<close>; with an API key configured that is the
  result of \<^verbatim>\<open>fetchLinkedInMultiple\<close>.
\<close>

theorem fetchLinkedInMultiple_first_occurrences:
  "distinct (map li_sourceJobId
     (fetchLinkedInMultiple rapidApiKey now isoParse relMatch axiosGet)) \<and>
   distinct (map li_sourceJobId (fetch_locations now isoParse relMatch axiosGet locs)) \<and>
   fetch_locations now isoParse relMatch axiosGet locs =
     first_occurrences (concat (map (batch_jobs now isoParse relMatch axiosGet) locs)) \<and>
   (if opt_or rapidApiKey [] = []
    then fetchLinkedInMultiple rapidApiKey now isoParse relMatch axiosGet =
           getMockLinkedInJobs now
    else fetchLinkedInMultiple rapidApiKey now isoParse relMatch axiosGet =
           first_occurrences
             (concat (map (batch_jobs now isoParse relMatch axiosGet) locationFilters)))"
  by (simp add: fetchLinkedInMultiple_def distinct_getMockLinkedInJobs
      distinct_fetch_locations fetch_locations_eq [symmetric])

lemma example_batches:
  "map li_sourceJobId
     (concat (map (batch_jobs 0 example_isoParse example_relMatch example_axiosGet)
        locationFilters)) = [''a'', ''b'', ''b'', ''c'']"
  by (simp add: locationFilters_def batch_jobs_def example_axiosGet_def
      transformLinkedInJobs_def transformLinkedInJob_def Let_def example_raw_def)

lemma example_fetch:
  "map li_sourceJobId
     (fetchLinkedInMultiple (Some ''key'') 0 example_isoParse example_relMatch example_axiosGet) =
     [''a'', ''b'', ''c'']"
  "map li_title
     (fetchLinkedInMultiple (Some ''key'') 0 example_isoParse example_relMatch example_axiosGet) =
     [''Analyst'', ''Builder'', ''Clerk'']"
  by (simp_all add: fetchLinkedInMultiple_def fetch_locations_def locationFilters_def
      fetch_location_def example_axiosGet_def add_unique_def opt_or_def str_or_def
      transformLinkedInJobs_def transformLinkedInJob_def Let_def example_raw_def)

theorem fetchLinkedInMultiple_first_occurrences_witness:
  "map li_sourceJobId
     (concat (map (batch_jobs 0 example_isoParse example_relMatch example_axiosGet)
        locationFilters)) = [''a'', ''b'', ''b'', ''c''] \<and>
   map li_sourceJobId
     (first_occurrences
        (concat (map (batch_jobs 0 example_isoParse example_relMatch example_axiosGet)
           locationFilters))) = [''a'', ''b'', ''c''] \<and>
   map li_title
     (first_occurrences
        (concat (map (batch_jobs 0 example_isoParse example_relMatch example_axiosGet)
           locationFilters))) = [''Analyst'', ''Builder'', ''Clerk''] \<and>
   distinct (map li_sourceJobId
     (fetchLinkedInMultiple (Some ''key'') 0 example_isoParse example_relMatch example_axiosGet))"
proof -
  have k: "opt_or (Some ''key'') [] \<noteq> []" by (simp add: opt_or_def str_or_def)
  note t = fetchLinkedInMultiple_first_occurrences [of "Some ''key''" 0 example_isoParse
      example_relMatch example_axiosGet locationFilters]
  from t have d: "distinct (map li_sourceJobId
     (fetchLinkedInMultiple (Some ''key'') 0 example_isoParse example_relMatch example_axiosGet))"
    by (rule conjunct1)
  from t k
  have "fetchLinkedInMultiple (Some ''key'') 0 example_isoParse example_relMatch example_axiosGet =
      first_occurrences
        (concat (map (batch_jobs 0 example_isoParse example_relMatch example_axiosGet)
           locationFilters))"
    by (auto split: if_splits)
  then have "map li_sourceJobId (first_occurrences
        (concat (map (batch_jobs 0 example_isoParse example_relMatch example_axiosGet)
           locationFilters))) = [''a'', ''b'', ''c'']"
    "map li_title (first_occurrences
        (concat (map (batch_jobs 0 example_isoParse example_relMatch example_axiosGet)
           locationFilters))) = [''Analyst'', ''Builder'', ''Clerk'']"
    using example_fetch by simp_all
  with d example_batches show ?thesis by (simp only: simp_thms)
qed

end
